theory Spec2Isabelle
  imports Main "HOL-Library.Word"
begin

unbundle bit_operations_syntax

section \<open>The iommufd backend (backends/iommufd.c)\<close>

text \<open>
  A shallow embedding of the iommufd backend of QEMU. The C file talks to the kernel
  through \<^verbatim>\<open>open\<close>, \<^verbatim>\<open>close\<close> and \<^verbatim>\<open>ioctl\<close>, and to the operator through
  \<^verbatim>\<open>error_report\<close> and trace points. All of these are made explicit:
  \<^item> every call that leaves the process is appended to a log of events, oldest first;
  \<^item> the kernel is a parameter: a function from the log so far (the whole history of
    the process), the descriptor and the request structure to the value the call
    returns, the value \<^verbatim>\<open>errno\<close> has after it, and the request structure as the kernel
    left it. Theorems quantify over this function, so they hold for every kernel;
  \<^item> an output parameter \<^verbatim>\<open>uint32_t *p\<close> is a value passed in (what the caller's
    variable holds before the call) and a value returned (what it holds after);
  \<^item> \<^verbatim>\<open>int\<close> values (descriptors, return codes, errno) are \<open>int\<close>: the code only
    compares and negates them, and the negation \<^verbatim>\<open>-errno\<close> is \<open>neg_int\<close>, which wraps at
    \<^verbatim>\<open>INT_MIN\<close> as the 32-bit negation of a build with \<^verbatim>\<open>-fwrapv\<close> does;
    \<^verbatim>\<open>uint32_t\<close> and 64-bit addresses are words;
  \<^item> \<^verbatim>\<open>errno\<close> is a global variable that any library call may change. A function of
    the C file reads it only after a call of its own has failed, so its value is followed
    from that call on: the kernel gives the value after the call, and each trace point
    and each \<^verbatim>\<open>error_report\<close> that runs before \<^verbatim>\<open>errno\<close> is read may change it (they
    write to a stream, and a failed write sets \<^verbatim>\<open>errno\<close>). What they leave in \<^verbatim>\<open>errno\<close>
    is the parameter \<open>diag_errno\<close> of the platform;
  \<^item> the mutex of the handle serialises \<^verbatim>\<open>connect\<close> and \<^verbatim>\<open>disconnect\<close>: each is
    one atomic transition of the handle, so any concurrent execution is one of the
    sequential orders modelled here.
\<close>

type_synonym u32 = "32 word"
type_synonym u64 = "64 word"

definition UINT32_MAX :: u32 where
  "UINT32_MAX = 4294967295"

definition INT_MIN :: int where
  "INT_MIN = - 2147483648"

text \<open>\<^verbatim>\<open>-x\<close> on a 32-bit \<^verbatim>\<open>int\<close>: \<^verbatim>\<open>INT_MIN\<close> has no positive counterpart and stays.\<close>

definition neg_int :: "int \<Rightarrow> int" where
  "neg_int x = (if x = INT_MIN then INT_MIN else - x)"

subsection \<open>The handle\<close>

record IOMMUFDBackend =
  fd :: int
  users :: u32
  owned :: bool

text \<open>\<^verbatim>\<open>Error\<close> objects of QEMU, as set by \<^verbatim>\<open>error_setg\<close> and \<^verbatim>\<open>error_setg_errno\<close>.\<close>

datatype Error =
    Error_setg string
  | Error_setg_errno int string

subsection \<open>Request structures of the kernel interface\<close>

text \<open>
  The structures are declared in \<^verbatim>\<open>linux/iommufd.h\<close>, which is not part of the
  sources at hand. Each record has the fields that the C file names; field names carry
  the structure's name as a prefix where two structures share one.
\<close>

record iommu_ioas_alloc =
  ioas_alloc_size :: u32
  ioas_alloc_flags :: u32
  out_ioas_id :: u32

record iommu_destroy =
  destroy_size :: u32
  destroy_id :: u32

record iommu_ioas_unmap =
  unmap_size :: u32
  unmap_ioas_id :: u32
  unmap_iova :: u64
  unmap_length :: u64

record iommu_ioas_map =
  map_size :: u32
  map_flags :: u32
  map_ioas_id :: u32
  map_reserved :: u32
  map_user_va :: u64
  map_iova :: u64
  map_length :: u64

record iommu_ioas_copy =
  copy_size :: u32
  copy_flags :: u32
  copy_dst_ioas_id :: u32
  copy_src_ioas_id :: u32
  copy_length :: u64
  copy_dst_iova :: u64
  copy_src_iova :: u64

record iommu_alloc_hwpt =
  hwpt_size :: u32
  hwpt_flags :: u32
  hwpt_dev_id :: u32
  hwpt_hwpt_type :: u32
  hwpt_parent_id :: u32
  hwpt_data_type :: u32
  hwpt_data_len :: u32
  hwpt_reserved :: u32
  hwpt_data_uptr :: u64
  out_hwpt_id :: u32

record iommu_add_hwpt_event =
  event_size :: u32
  event_flags :: u32
  event_type :: u32
  event_dev_id :: u32
  event_hwpt_id :: u32
  event_eventfd :: int
  event_out_fd :: int

record iommu_alloc_pasid =
  pasid_size :: u32
  pasid_flags :: u32
  pasid_range_min :: u32
  pasid_range_max :: u32
  pasid_pasid :: u32

text \<open>A flag \<open>f\<close> is set in a flags word when all of its bits are.\<close>

definition flag_set :: "u32 \<Rightarrow> u32 \<Rightarrow> bool" where
  "flag_set f flags = (flags AND f = f)"

subsection \<open>Events and the kernel\<close>

text \<open>The request code of an \<^verbatim>\<open>ioctl\<close> together with the structure passed to it.\<close>

datatype ioctl_req =
    Req_IOMMU_IOAS_ALLOC iommu_ioas_alloc
  | Req_IOMMU_DESTROY iommu_destroy
  | Req_IOMMU_IOAS_UNMAP iommu_ioas_unmap
  | Req_IOMMU_IOAS_MAP iommu_ioas_map
  | Req_IOMMU_IOAS_COPY iommu_ioas_copy
  | Req_IOMMU_ALLOC_HWPT iommu_alloc_hwpt
  | Req_IOMMU_ADD_HWPT_EVENT iommu_add_hwpt_event
  | Req_IOMMU_ALLOC_PASID iommu_alloc_pasid

datatype event =
    Ev_open int \<comment> \<open>\<^verbatim>\<open>qemu_open_old("/dev/iommu", O_RDWR)\<close> was called and returned this value\<close>
  | Ev_close int \<comment> \<open>\<^verbatim>\<open>close\<close> was called on this descriptor\<close>
  | Ev_ioctl int ioctl_req \<comment> \<open>\<^verbatim>\<open>ioctl\<close> was called on this descriptor with this request\<close>
  | Ev_error_report string "int list" \<comment> \<open>format and arguments; errno stands for its text\<close>
  | Ev_trace string "int list" \<comment> \<open>trace point and its arguments\<close>

text \<open>
  The platform: the constants that the C file uses and that its headers define
  (\<^verbatim>\<open>E2BIG\<close> of \<^verbatim>\<open>errno.h\<close>, and the flags, the event type and the structure sizes
  of \<^verbatim>\<open>linux/iommufd.h\<close>), and \<open>diag_errno\<close>: the value of \<^verbatim>\<open>errno\<close> after a trace point
  or an \<^verbatim>\<open>error_report\<close> has run, given the log up to and including that diagnostic and
  the value of \<^verbatim>\<open>errno\<close> before it. They are parameters of the model.
\<close>

record platform =
  E2BIG :: int
  IOMMU_IOAS_MAP_FIXED_IOVA :: u32
  IOMMU_IOAS_MAP_WRITEABLE :: u32
  IOMMU_IOAS_MAP_READABLE :: u32
  IOMMU_HWPT_EVENT_FAULT :: u32
  IOMMU_ALLOC_PASID_IDENTICAL :: u32
  sizeof_iommu_ioas_alloc :: u32
  sizeof_iommu_destroy :: u32
  sizeof_iommu_ioas_unmap :: u32
  sizeof_iommu_ioas_map :: u32
  sizeof_iommu_ioas_copy :: u32
  sizeof_iommu_alloc_hwpt :: u32
  sizeof_iommu_add_hwpt_event :: u32
  sizeof_iommu_alloc_pasid :: u32
  diag_errno :: "event list \<Rightarrow> int \<Rightarrow> int"

type_synonym open_fn = "event list \<Rightarrow> int \<times> int"
type_synonym 'r ioctl_fn = "event list \<Rightarrow> int \<Rightarrow> 'r \<Rightarrow> int \<times> int \<times> 'r"

definition error_report :: "string \<Rightarrow> int list \<Rightarrow> event list \<Rightarrow> event list" where
  "error_report fmt args l = l @ [Ev_error_report fmt args]"

definition trace :: "string \<Rightarrow> int list \<Rightarrow> event list \<Rightarrow> event list" where
  "trace point args l = l @ [Ev_trace point args]"

definition close_fd :: "int \<Rightarrow> event list \<Rightarrow> event list" where
  "close_fd f l = l @ [Ev_close f]"

text \<open>
  \<^verbatim>\<open>ret = ioctl(f, REQ, &r)\<close>: the value returned, errno after the call, the structure
  after the call, and the log with the call appended.
\<close>

definition do_ioctl ::
  "'r ioctl_fn \<Rightarrow> ('r \<Rightarrow> ioctl_req) \<Rightarrow> int \<Rightarrow> 'r \<Rightarrow> event list \<Rightarrow> int \<times> int \<times> 'r \<times> event list" where
  "do_ioctl ioctl REQ f r l =
     (case ioctl l f r of (ret, errno, r') \<Rightarrow> (ret, errno, r', l @ [Ev_ioctl f (REQ r)]))"

text \<open>Projections of the log: the results of the open calls, the descriptors closed.\<close>

fun open_calls :: "event list \<Rightarrow> int list" where
  "open_calls [] = []"
| "open_calls (Ev_open r # l) = r # open_calls l"
| "open_calls (_ # l) = open_calls l"

fun close_calls :: "event list \<Rightarrow> int list" where
  "close_calls [] = []"
| "close_calls (Ev_close f # l) = f # close_calls l"
| "close_calls (_ # l) = close_calls l"

fun error_reports :: "event list \<Rightarrow> (string \<times> int list) list" where
  "error_reports [] = []"
| "error_reports (Ev_error_report fmt args # l) = (fmt, args) # error_reports l"
| "error_reports (_ # l) = error_reports l"

fun ioctl_calls :: "event list \<Rightarrow> (int \<times> ioctl_req) list" where
  "ioctl_calls [] = []"
| "ioctl_calls (Ev_ioctl f r # l) = (f, r) # ioctl_calls l"
| "ioctl_calls (_ # l) = ioctl_calls l"

subsection \<open>Life cycle of the handle\<close>

definition iommufd_backend_init :: IOMMUFDBackend where
  "iommufd_backend_init = \<lparr>fd = - 1, users = 0, owned = True\<rparr>"

definition iommufd_backend_finalize ::
  "IOMMUFDBackend \<Rightarrow> event list \<Rightarrow> IOMMUFDBackend \<times> event list" where
  "iommufd_backend_finalize be l =
     (if owned be then (be\<lparr>fd := - 1\<rparr>, close_fd (fd be) l) else (be, l))"

text \<open>
  The exit of \<^verbatim>\<open>iommufd_backend_connect\<close> (label \<^verbatim>\<open>out\<close>): the trace point reads the
  handle as it is then.
\<close>

definition connect_out ::
  "IOMMUFDBackend \<Rightarrow> event list \<Rightarrow> int \<Rightarrow> Error option
     \<Rightarrow> int \<times> Error option \<times> IOMMUFDBackend \<times> event list" where
  "connect_out be l ret errp =
     (ret, errp, be,
      trace ''iommufd_backend_connect''
        [fd be, of_bool (owned be), uint (users be), ret] l)"

definition iommufd_backend_connect ::
  "platform \<Rightarrow> open_fn \<Rightarrow> IOMMUFDBackend \<Rightarrow> event list
     \<Rightarrow> int \<times> Error option \<times> IOMMUFDBackend \<times> event list" where
  "iommufd_backend_connect c qemu_open_old be l =
     (if users be = UINT32_MAX then
        connect_out be l (- E2BIG c) (Some (Error_setg ''too many connections''))
      else if owned be \<and> users be = 0 then
        (case qemu_open_old l of (f, errno) \<Rightarrow>
           if f < 0 then
             connect_out be (l @ [Ev_open f]) f
               (Some (Error_setg_errno errno ''/dev/iommu opening failed''))
           else
             connect_out (be\<lparr>fd := f, users := users be + 1\<rparr>) (l @ [Ev_open f]) 0 None)
      else connect_out (be\<lparr>users := users be + 1\<rparr>) l 0 None)"

definition disconnect_out ::
  "IOMMUFDBackend \<Rightarrow> event list \<Rightarrow> IOMMUFDBackend \<times> event list" where
  "disconnect_out be l =
     (be, trace ''iommufd_backend_disconnect'' [fd be, uint (users be)] l)"

definition iommufd_backend_disconnect ::
  "IOMMUFDBackend \<Rightarrow> event list \<Rightarrow> IOMMUFDBackend \<times> event list" where
  "iommufd_backend_disconnect be l =
     (if users be = 0 then disconnect_out be l
      else
        (let be1 = be\<lparr>users := users be - 1\<rparr> in
         if users be1 = 0 \<and> owned be1 then
           disconnect_out (be1\<lparr>fd := - 1\<rparr>) (close_fd (fd be1) l)
         else disconnect_out be1 l))"

text \<open>
  The property \<^verbatim>\<open>fd\<close> of the object. \<^verbatim>\<open>monitor_fd_param\<close> belongs to the monitor and is
  a parameter: it resolves the text to a descriptor, or gives \<open>-1\<close> and an error message,
  to which \<^verbatim>\<open>error_prepend\<close> adds the prefix.
\<close>

definition iommufd_backend_set_fd ::
  "(string \<Rightarrow> int \<times> string) \<Rightarrow> string \<Rightarrow> IOMMUFDBackend \<Rightarrow> event list
     \<Rightarrow> Error option \<times> IOMMUFDBackend \<times> event list" where
  "iommufd_backend_set_fd monitor_fd_param str be l =
     (case monitor_fd_param str of
        (f, msg) \<Rightarrow>
          if f = - 1 then
            (Some (Error_setg (''Could not parse remote object fd '' @ str @ '':'' @ msg)), be, l)
          else
            (let be1 = be\<lparr>fd := f, owned := False\<rparr>
             in (None, be1, trace ''iommu_backend_set_fd'' [fd be1] l)))"

subsection \<open>Address spaces\<close>

text \<open>
  Each operation first fills its request structure: the initialiser of the C function
  (fields it does not name are zero) and, for the mappings, the update of the flags that
  follows it. These are the \<open>_request\<close> definitions; the operation then passes the
  structure to \<^verbatim>\<open>ioctl\<close>.
\<close>

definition alloc_ioas_request :: "platform \<Rightarrow> iommu_ioas_alloc" where
  "alloc_ioas_request c =
     \<lparr>ioas_alloc_size = sizeof_iommu_ioas_alloc c, ioas_alloc_flags = 0, out_ioas_id = 0\<rparr>"

definition iommufd_backend_alloc_ioas ::
  "platform \<Rightarrow> iommu_ioas_alloc ioctl_fn \<Rightarrow> int \<Rightarrow> u32 \<Rightarrow> event list \<Rightarrow> int \<times> u32 \<times> event list" where
  "iommufd_backend_alloc_ioas c ioctl f ioas l =
     (case do_ioctl ioctl Req_IOMMU_IOAS_ALLOC f (alloc_ioas_request c) l of
        (ret, errno, alloc_data, l1) \<Rightarrow>
          (let l2 = (if ret \<noteq> 0 then error_report ''Failed to allocate ioas %m'' [errno] l1
                     else l1);
               ioas' = out_ioas_id alloc_data
           in (ret, ioas',
               trace ''iommufd_backend_alloc_ioas'' [f, uint ioas', ret] l2)))"

definition free_id_request :: "platform \<Rightarrow> u32 \<Rightarrow> iommu_destroy" where
  "free_id_request c id' = \<lparr>destroy_size = sizeof_iommu_destroy c, destroy_id = id'\<rparr>"

definition iommufd_backend_free_id ::
  "platform \<Rightarrow> iommu_destroy ioctl_fn \<Rightarrow> int \<Rightarrow> u32 \<Rightarrow> event list \<Rightarrow> event list" where
  "iommufd_backend_free_id c ioctl f id' l =
     (case do_ioctl ioctl Req_IOMMU_DESTROY f (free_id_request c id') l of
        (ret, errno, des, l1) \<Rightarrow>
          (let l2 = trace ''iommufd_backend_free_id'' [f, uint id', ret] l1;
               errno1 = diag_errno c l2 errno
           in if ret \<noteq> 0 then error_report ''Failed to free id: %u %m'' [uint id', errno1] l2
              else l2))"

definition iommufd_backend_get_ioas ::
  "platform \<Rightarrow> iommu_ioas_alloc ioctl_fn \<Rightarrow> IOMMUFDBackend \<Rightarrow> u32 \<Rightarrow> event list
     \<Rightarrow> int \<times> u32 \<times> event list" where
  "iommufd_backend_get_ioas c ioctl be ioas_id l =
     (case iommufd_backend_alloc_ioas c ioctl (fd be) ioas_id l of
        (ret, ioas_id', l1) \<Rightarrow>
          (ret, ioas_id',
           trace ''iommufd_backend_get_ioas'' [fd be, uint ioas_id', ret] l1))"

definition iommufd_backend_put_ioas ::
  "platform \<Rightarrow> iommu_destroy ioctl_fn \<Rightarrow> IOMMUFDBackend \<Rightarrow> u32 \<Rightarrow> event list \<Rightarrow> event list" where
  "iommufd_backend_put_ioas c ioctl be ioas l =
     iommufd_backend_free_id c ioctl (fd be) ioas
       (trace ''iommufd_backend_put_ioas'' [fd be, uint ioas] l)"

subsection \<open>DMA mappings\<close>

text \<open>
  \<^verbatim>\<open>hwaddr\<close> and \<^verbatim>\<open>ram_addr_t\<close> are 64-bit unsigned integers and a host pointer is a
  64-bit word; the cast of \<^verbatim>\<open>vaddr\<close> keeps its bits.
\<close>

definition unmap_dma_request :: "platform \<Rightarrow> u32 \<Rightarrow> u64 \<Rightarrow> u64 \<Rightarrow> iommu_ioas_unmap" where
  "unmap_dma_request c ioas iova sz =
     \<lparr>unmap_size = sizeof_iommu_ioas_unmap c, unmap_ioas_id = ioas,
      unmap_iova = iova, unmap_length = sz\<rparr>"

definition iommufd_backend_unmap_dma ::
  "platform \<Rightarrow> iommu_ioas_unmap ioctl_fn \<Rightarrow> IOMMUFDBackend \<Rightarrow> u32 \<Rightarrow> u64 \<Rightarrow> u64 \<Rightarrow> event list
     \<Rightarrow> int \<times> event list" where
  "iommufd_backend_unmap_dma c ioctl be ioas iova sz l =
     (case do_ioctl ioctl Req_IOMMU_IOAS_UNMAP (fd be) (unmap_dma_request c ioas iova sz) l of
        (ret, errno, unmap, l1) \<Rightarrow>
          (let l2 = trace ''iommufd_backend_unmap_dma''
                      [fd be, uint ioas, uint iova, uint sz, ret] l1;
               errno1 = diag_errno c l2 errno;
               l3 = (if ret \<noteq> 0 then error_report ''IOMMU_IOAS_UNMAP failed: %s'' [errno1] l2
                     else l2);
               errno2 = (if ret \<noteq> 0 then diag_errno c l3 errno1 else errno1)
           in (if ret = 0 then 0 else neg_int errno2, l3)))"

definition map_dma_request :: "platform \<Rightarrow> u32 \<Rightarrow> u64 \<Rightarrow> u64 \<Rightarrow> u64 \<Rightarrow> bool \<Rightarrow> iommu_ioas_map" where
  "map_dma_request c ioas iova sz vaddr readonly =
     (let map0 =
            \<lparr>map_size = sizeof_iommu_ioas_map c,
             map_flags = IOMMU_IOAS_MAP_READABLE c OR IOMMU_IOAS_MAP_FIXED_IOVA c,
             map_ioas_id = ioas, map_reserved = 0, map_user_va = vaddr,
             map_iova = iova, map_length = sz\<rparr>
      in if \<not> readonly
         then map0\<lparr>map_flags := map_flags map0 OR IOMMU_IOAS_MAP_WRITEABLE c\<rparr>
         else map0)"

definition iommufd_backend_map_dma ::
  "platform \<Rightarrow> iommu_ioas_map ioctl_fn \<Rightarrow> IOMMUFDBackend \<Rightarrow> u32 \<Rightarrow> u64 \<Rightarrow> u64 \<Rightarrow> u64 \<Rightarrow> bool
     \<Rightarrow> event list \<Rightarrow> int \<times> event list" where
  "iommufd_backend_map_dma c ioctl be ioas iova sz vaddr readonly l =
     (case do_ioctl ioctl Req_IOMMU_IOAS_MAP (fd be)
             (map_dma_request c ioas iova sz vaddr readonly) l of
        (ret, errno, map', l1) \<Rightarrow>
          (let l2 = trace ''iommufd_backend_map_dma''
                      [fd be, uint ioas, uint iova, uint sz, uint vaddr,
                       of_bool readonly, ret] l1;
               errno1 = diag_errno c l2 errno;
               l3 = (if ret \<noteq> 0 then error_report ''IOMMU_IOAS_MAP failed: %s'' [errno1] l2
                     else l2);
               errno2 = (if ret \<noteq> 0 then diag_errno c l3 errno1 else errno1)
           in (if ret = 0 then 0 else neg_int errno2, l3)))"

definition copy_dma_request :: "platform \<Rightarrow> u32 \<Rightarrow> u32 \<Rightarrow> u64 \<Rightarrow> u64 \<Rightarrow> bool \<Rightarrow> iommu_ioas_copy" where
  "copy_dma_request c src_ioas dst_ioas iova sz readonly =
     (let copy0 =
            \<lparr>copy_size = sizeof_iommu_ioas_copy c,
             copy_flags = IOMMU_IOAS_MAP_READABLE c OR IOMMU_IOAS_MAP_FIXED_IOVA c,
             copy_dst_ioas_id = dst_ioas, copy_src_ioas_id = src_ioas,
             copy_length = sz, copy_dst_iova = iova, copy_src_iova = iova\<rparr>
      in if \<not> readonly
         then copy0\<lparr>copy_flags := copy_flags copy0 OR IOMMU_IOAS_MAP_WRITEABLE c\<rparr>
         else copy0)"

definition iommufd_backend_copy_dma ::
  "platform \<Rightarrow> iommu_ioas_copy ioctl_fn \<Rightarrow> IOMMUFDBackend \<Rightarrow> u32 \<Rightarrow> u32 \<Rightarrow> u64 \<Rightarrow> u64 \<Rightarrow> bool
     \<Rightarrow> event list \<Rightarrow> int \<times> event list" where
  "iommufd_backend_copy_dma c ioctl be src_ioas dst_ioas iova sz readonly l =
     (case do_ioctl ioctl Req_IOMMU_IOAS_COPY (fd be)
             (copy_dma_request c src_ioas dst_ioas iova sz readonly) l of
        (ret, errno, copy', l1) \<Rightarrow>
          (let l2 = trace ''iommufd_backend_copy_dma''
                      [fd be, uint src_ioas, uint dst_ioas, uint iova, uint sz,
                       of_bool readonly, ret] l1;
               errno1 = diag_errno c l2 errno;
               l3 = (if ret \<noteq> 0 then error_report ''IOMMU_IOAS_COPY failed: %s'' [errno1] l2
                     else l2);
               errno2 = (if ret \<noteq> 0 then diag_errno c l3 errno1 else errno1)
           in (if ret = 0 then 0 else neg_int errno2, l3)))"

subsection \<open>Hardware page tables, events and PASIDs\<close>

definition alloc_hwpt_request ::
  "platform \<Rightarrow> u32 \<Rightarrow> u32 \<Rightarrow> u32 \<Rightarrow> u32 \<Rightarrow> u32 \<Rightarrow> u64 \<Rightarrow> u32 \<Rightarrow> iommu_alloc_hwpt" where
  "alloc_hwpt_request c flags dev_id hwpt_type parent data_type data data_len =
     \<lparr>hwpt_size = sizeof_iommu_alloc_hwpt c, hwpt_flags = flags, hwpt_dev_id = dev_id,
      hwpt_hwpt_type = hwpt_type, hwpt_parent_id = parent, hwpt_data_type = data_type,
      hwpt_data_len = data_len, hwpt_reserved = 0, hwpt_data_uptr = data,
      out_hwpt_id = 0\<rparr>"

definition iommufd_backend_alloc_hwpt ::
  "platform \<Rightarrow> iommu_alloc_hwpt ioctl_fn \<Rightarrow> int \<Rightarrow> u32 \<Rightarrow> u32 \<Rightarrow> u32 \<Rightarrow> u32 \<Rightarrow> u32 \<Rightarrow> u64 \<Rightarrow> u32
     \<Rightarrow> u32 \<Rightarrow> event list \<Rightarrow> int \<times> u32 \<times> event list" where
  "iommufd_backend_alloc_hwpt c ioctl iommufd flags dev_id hwpt_type parent data_type
      data data_len out_hwpt l =
     (case do_ioctl ioctl Req_IOMMU_ALLOC_HWPT iommufd
             (alloc_hwpt_request c flags dev_id hwpt_type parent data_type data data_len) l of
        (ret, errno, alloc_hwpt, l1) \<Rightarrow>
          (let l2 = trace ''iommufd_backend_alloc_hwpt''
                      [iommufd, uint flags, uint dev_id, uint hwpt_type, uint parent,
                       uint data_type, uint data, ret] l1;
               errno1 = diag_errno c l2 errno
           in if ret \<noteq> 0 then
                (let l3 = error_report ''IOMMU_ALLOC_HWPT (%d type) failed: %s''
                            [uint hwpt_type, errno1] l2
                 in (neg_int (diag_errno c l3 errno1), out_hwpt, l3))
              else (0, out_hwpt_id alloc_hwpt, l2)))"

definition add_hwpt_event_request :: "platform \<Rightarrow> u32 \<Rightarrow> u32 \<Rightarrow> int \<Rightarrow> iommu_add_hwpt_event" where
  "add_hwpt_event_request c dev_id hwpt eventfd =
     \<lparr>event_size = sizeof_iommu_add_hwpt_event c, event_flags = 0,
      event_type = IOMMU_HWPT_EVENT_FAULT c, event_dev_id = dev_id,
      event_hwpt_id = hwpt, event_eventfd = eventfd, event_out_fd = 0\<rparr>"

definition iommufd_backend_add_hwpt_event ::
  "platform \<Rightarrow> iommu_add_hwpt_event ioctl_fn \<Rightarrow> int \<Rightarrow> u32 \<Rightarrow> u32 \<Rightarrow> int \<Rightarrow> int \<Rightarrow> event list
     \<Rightarrow> int \<times> int \<times> event list" where
  "iommufd_backend_add_hwpt_event c ioctl iommufd dev_id hwpt eventfd out_fd l =
     (case do_ioctl ioctl Req_IOMMU_ADD_HWPT_EVENT iommufd
             (add_hwpt_event_request c dev_id hwpt eventfd) l of
        (ret, errno, add_event, l1) \<Rightarrow>
          (let l2 = trace ''iommufd_backend_add_hwpt_event''
                      [iommufd, uint (event_type add_event), uint dev_id, uint hwpt,
                       eventfd, ret] l1;
               errno1 = diag_errno c l2 errno
           in if ret \<noteq> 0 then
                (let l3 = error_report ''IOMMU_ADD_HWPT_EVENT failed: %s'' [errno1] l2
                 in (neg_int (diag_errno c l3 errno1), out_fd, l3))
              else (0, event_out_fd add_event, l2)))"

definition alloc_pasid_request :: "platform \<Rightarrow> u32 \<Rightarrow> u32 \<Rightarrow> bool \<Rightarrow> u32 \<Rightarrow> iommu_alloc_pasid" where
  "alloc_pasid_request c pmin pmax identical upasid =
     \<lparr>pasid_size = sizeof_iommu_alloc_pasid c,
      pasid_flags = (if identical then IOMMU_ALLOC_PASID_IDENTICAL c else 0),
      pasid_range_min = pmin, pasid_range_max = pmax, pasid_pasid = upasid\<rparr>"

definition iommufd_backend_alloc_pasid ::
  "platform \<Rightarrow> iommu_alloc_pasid ioctl_fn \<Rightarrow> int \<Rightarrow> u32 \<Rightarrow> u32 \<Rightarrow> bool \<Rightarrow> u32 \<Rightarrow> event list
     \<Rightarrow> int \<times> u32 \<times> event list" where
  "iommufd_backend_alloc_pasid c ioctl iommufd pmin pmax identical pasid l =
     (let upasid = pasid
      in case do_ioctl ioctl Req_IOMMU_ALLOC_PASID iommufd
                (alloc_pasid_request c pmin pmax identical upasid) l of
           (ret, errno, alloc, l1) \<Rightarrow>
             (let l2 = (if ret \<noteq> 0 then error_report ''IOMMU_ALLOC_PASID failed: %s'' [errno] l1
                        else l1);
                  errno1 = (if ret \<noteq> 0 then diag_errno c l2 errno else errno);
                  pasid' = (if ret \<noteq> 0 then pasid else pasid_pasid alloc);
                  l3 = trace ''iommufd_backend_alloc_pasid''
                         [iommufd, uint pmin, uint pmax, of_bool identical, uint upasid,
                          uint pasid', ret] l2;
                  errno2 = diag_errno c l3 errno1
              in (if ret = 0 then 0 else neg_int errno2, pasid', l3)))"

subsection \<open>Sequences of calls on one handle\<close>

text \<open>
  A caller's calls to \<^verbatim>\<open>iommufd_backend_connect\<close> and \<^verbatim>\<open>iommufd_backend_disconnect\<close>,
  in the order in which the mutex lets them in; \<open>exec\<close> gives the handle and the log after
  all of them.
\<close>

datatype call = Connect | Disconnect

fun do_call ::
  "platform \<Rightarrow> open_fn \<Rightarrow> call \<Rightarrow> IOMMUFDBackend \<times> event list \<Rightarrow> IOMMUFDBackend \<times> event list" where
  "do_call c qemu_open_old Connect (be, l) =
     (case iommufd_backend_connect c qemu_open_old be l of (ret, errp, be', l') \<Rightarrow> (be', l'))"
| "do_call c qemu_open_old Disconnect (be, l) = iommufd_backend_disconnect be l"

fun exec ::
  "platform \<Rightarrow> open_fn \<Rightarrow> call list \<Rightarrow> IOMMUFDBackend \<times> event list \<Rightarrow> IOMMUFDBackend \<times> event list" where
  "exec c qemu_open_old [] s = s"
| "exec c qemu_open_old (x # xs) s = exec c qemu_open_old xs (do_call c qemu_open_old x s)"

subsection \<open>A platform for the examples\<close>

text \<open>
  The values of Linux where its headers are well known (\<^verbatim>\<open>E2BIG\<close>, the three mapping
  flags, the sizes of the first five structures), and plausible ones for the rest; the
  diagnostics leave \<^verbatim>\<open>errno\<close> as it is. Only the examples use them.
\<close>

definition example_platform :: platform where
  "example_platform =
     \<lparr>E2BIG = 7,
      IOMMU_IOAS_MAP_FIXED_IOVA = 1,
      IOMMU_IOAS_MAP_WRITEABLE = 2,
      IOMMU_IOAS_MAP_READABLE = 4,
      IOMMU_HWPT_EVENT_FAULT = 1,
      IOMMU_ALLOC_PASID_IDENTICAL = 1,
      sizeof_iommu_ioas_alloc = 12,
      sizeof_iommu_destroy = 8,
      sizeof_iommu_ioas_unmap = 24,
      sizeof_iommu_ioas_map = 40,
      sizeof_iommu_ioas_copy = 40,
      sizeof_iommu_alloc_hwpt = 48,
      sizeof_iommu_add_hwpt_event = 28,
      sizeof_iommu_alloc_pasid = 20,
      diag_errno = (\<lambda>l errno. errno)\<rparr>"

text \<open>
  The same platform with the diagnostics going to a stream that cannot be written (a full
  disk): every \<^verbatim>\<open>error_report\<close> leaves \<^verbatim>\<open>errno\<close> at 28 (\<^verbatim>\<open>ENOSPC\<close>).
\<close>

definition full_disk_platform :: platform where
  "full_disk_platform =
     example_platform
       \<lparr>diag_errno :=
          (\<lambda>l errno. case rev l of Ev_error_report fmt args # l' \<Rightarrow> 28 | _ \<Rightarrow> errno)\<rparr>"

section \<open>Properties\<close>

subsection \<open>Auxiliary facts\<close>

lemma open_calls_append: "open_calls (l @ l') = open_calls l @ open_calls l'"
  by (induction l rule: open_calls.induct) simp_all

lemma close_calls_append: "close_calls (l @ l') = close_calls l @ close_calls l'"
  by (induction l rule: close_calls.induct) simp_all

lemma error_reports_append: "error_reports (l @ l') = error_reports l @ error_reports l'"
  by (induction l rule: error_reports.induct) simp_all

lemma ioctl_calls_append: "ioctl_calls (l @ l') = ioctl_calls l @ ioctl_calls l'"
  by (induction l rule: ioctl_calls.induct) simp_all

lemmas log_simps =
  open_calls_append close_calls_append error_reports_append ioctl_calls_append
  trace_def error_report_def close_fd_def

lemmas run_defs =
  iommufd_backend_connect_def iommufd_backend_disconnect_def connect_out_def disconnect_out_def
  iommufd_backend_init_def UINT32_MAX_def log_simps Let_def

lemma flag_set_or:
  "flag_set a (a OR b)" "flag_set b (a OR b)"
  "flag_set a x \<Longrightarrow> flag_set a (x OR b)"
  by (auto simp: flag_set_def bit_eq_iff bit_simps)

lemma unat_users_succ:
  assumes "u \<noteq> UINT32_MAX"
  shows "unat (u + 1) = Suc (unat u)"
proof -
  have "unat u < 4294967296"
    using unsigned_less [of u, where ?'a = nat] by simp
  moreover have "unat u \<noteq> 4294967295"
    using assms by (simp add: UINT32_MAX_def unat_arith_simps)
  ultimately show ?thesis
    by (simp add: unat_arith_simps)
qed

lemma unat_UINT32_MAX: "unat UINT32_MAX = 4294967295"
  by (simp add: UINT32_MAX_def)

lemma exec_append:
  "exec c opn (xs @ ys) s = exec c opn ys (exec c opn xs s)"
  by (induction xs arbitrary: s) simp_all

lemma exec_replicate_Suc:
  "exec c opn (replicate (Suc n) x) s = do_call c opn x (exec c opn (replicate n x) s)"
proof -
  have "replicate (Suc n) x = replicate n x @ [x]"
    by (simp add: replicate_append_same)
  then show ?thesis
    by (simp only: exec_append exec.simps)
qed

subsection \<open>Connecting\<close>

text \<open>
  Claim C2. \<^verbatim>\<open>iommufd_backend_connect\<close> fails without changing the handle in both of
  its error cases. When \<open>users\<close> is \<open>UINT32_MAX\<close> it returns \<open>-E2BIG\<close> with the error
  "too many connections" (the spec's TooManyUsers); the handle is as before and the
  controller is neither opened nor closed. When the handle is self-owned with \<open>users = 0\<close>
  and opening \<^verbatim>\<open>/dev/iommu\<close> fails (the open returns \<open>f < 0\<close>, errno is \<open>e\<close>), it returns
  \<open>f\<close> with the error "/dev/iommu opening failed" qualified by \<open>e\<close> (the spec's
  OpenFailed); the handle is as before: \<open>users\<close> is not incremented and \<open>fd\<close> is unchanged.
\<close>

theorem connect_failure_no_mutation:
  "(users be = UINT32_MAX \<longrightarrow>
      (case iommufd_backend_connect c qemu_open_old be l of
         (ret, errp, be', l') \<Rightarrow>
           ret = - E2BIG c \<and> errp = Some (Error_setg ''too many connections'')
         \<and> be' = be \<and> open_calls l' = open_calls l \<and> close_calls l' = close_calls l))
   \<and> (owned be \<and> users be = 0 \<and> qemu_open_old l = (f, e) \<and> f < 0 \<longrightarrow>
      (case iommufd_backend_connect c qemu_open_old be l of
         (ret, errp, be', l') \<Rightarrow>
           ret = f \<and> errp = Some (Error_setg_errno e ''/dev/iommu opening failed'')
         \<and> be' = be \<and> open_calls l' = open_calls l @ [f]
         \<and> close_calls l' = close_calls l))"
  by (simp add: iommufd_backend_connect_def connect_out_def UINT32_MAX_def log_simps)

text \<open>
  A saturated handle, and a fresh handle on a system where the open fails with errno 13.
\<close>

theorem connect_failure_no_mutation_witness:
  "(case iommufd_backend_connect example_platform (\<lambda>_. (3, 0))
           \<lparr>fd = 3, users = UINT32_MAX, owned = True\<rparr> [] of
      (ret, errp, be', l') \<Rightarrow>
        ret = - 7 \<and> errp = Some (Error_setg ''too many connections'')
      \<and> be' = \<lparr>fd = 3, users = UINT32_MAX, owned = True\<rparr> \<and> open_calls l' = []
      \<and> close_calls l' = [])
   \<and> (case iommufd_backend_connect example_platform (\<lambda>_. (- 1, 13)) iommufd_backend_init [] of
      (ret, errp, be', l') \<Rightarrow>
        ret = - 1 \<and> errp = Some (Error_setg_errno 13 ''/dev/iommu opening failed'')
      \<and> be' = iommufd_backend_init \<and> open_calls l' = [- 1] \<and> close_calls l' = [])"
  using connect_failure_no_mutation
      [where be = "\<lparr>fd = 3, users = UINT32_MAX, owned = True\<rparr>" and c = example_platform
        and qemu_open_old = "\<lambda>_. (3, 0)" and l = "[]" and f = 3 and e = 0]
    connect_failure_no_mutation
      [where be = iommufd_backend_init and c = example_platform
        and qemu_open_old = "\<lambda>_. (- 1, 13)" and l = "[]" and f = "- 1" and e = 13]
  by (simp add: example_platform_def iommufd_backend_init_def)

subsection \<open>One step of the life cycle\<close>

lemma connect_first:
  assumes "qemu_open_old l = (f, e)" and "0 \<le> f"
    and "iommufd_backend_connect c qemu_open_old iommufd_backend_init l = (ret, errp, be', l')"
  shows "fd be' = f \<and> owned be' \<and> unat (users be') = 1
    \<and> open_calls l' = open_calls l @ [f] \<and> close_calls l' = close_calls l"
  using assms
  by (auto simp: iommufd_backend_connect_def connect_out_def iommufd_backend_init_def
      UINT32_MAX_def log_simps)

lemma connect_connected:
  assumes "users be \<noteq> 0"
    and "iommufd_backend_connect c qemu_open_old be l = (ret, errp, be', l')"
  shows "fd be' = fd be \<and> owned be' = owned be
    \<and> unat (users be') = min (Suc (unat (users be))) 4294967295
    \<and> open_calls l' = open_calls l \<and> close_calls l' = close_calls l"
proof (cases "users be = UINT32_MAX")
  case True
  with assms show ?thesis
    by (auto simp: iommufd_backend_connect_def connect_out_def log_simps unat_UINT32_MAX)
next
  case False
  have "unat (users be) \<le> 4294967295"
    using unsigned_less [of "users be", where ?'a = nat] by simp
  moreover have "unat (users be) \<noteq> 4294967295"
    using False by (simp add: UINT32_MAX_def unat_arith_simps)
  ultimately have "Suc (unat (users be)) \<le> 4294967295" by simp
  with assms False show ?thesis
    by (auto simp: iommufd_backend_connect_def connect_out_def log_simps unat_users_succ)
qed

lemma disconnect_step:
  assumes "iommufd_backend_disconnect be l = (be', l')"
  shows "owned be' = owned be \<and> unat (users be') = unat (users be) - 1
    \<and> open_calls l' = open_calls l
    \<and> (if unat (users be) = 1 \<and> owned be
        then fd be' = - 1 \<and> close_calls l' = close_calls l @ [fd be]
        else fd be' = fd be \<and> close_calls l' = close_calls l)"
proof (cases "users be = 0")
  case True
  with assms show ?thesis
    by (auto simp: iommufd_backend_disconnect_def disconnect_out_def log_simps)
next
  case False
  have "users be - 1 = 0 \<longleftrightarrow> unat (users be) = 1"
    using False unat_minus_one [OF False]
    by (metis One_nat_def Suc_pred diff_Suc_1 unat_eq_0 unat_gt_0)
  with assms False show ?thesis
    by (auto simp: iommufd_backend_disconnect_def disconnect_out_def log_simps Let_def
        unat_minus_one)
qed

subsection \<open>Phases of connects and of disconnects\<close>

lemma connect_phase:
  assumes "qemu_open_old l = (f, e)" and "0 \<le> f"
  shows "exec c qemu_open_old (replicate (Suc a) Connect) (iommufd_backend_init, l) = (be', l')
    \<Longrightarrow> fd be' = f \<and> owned be' \<and> unat (users be') = min (Suc a) 4294967295
      \<and> open_calls l' = open_calls l @ [f] \<and> close_calls l' = close_calls l"
proof (induction a arbitrary: be' l')
  case 0
  then show ?case
    using connect_first [where qemu_open_old = qemu_open_old and l = l, OF assms]
    by (auto split: prod.splits)
next
  case (Suc a)
  obtain be1 l1 where
    s1: "exec c qemu_open_old (replicate (Suc a) Connect) (iommufd_backend_init, l) = (be1, l1)"
    by (cases "exec c qemu_open_old (replicate (Suc a) Connect) (iommufd_backend_init, l)")
  note ih = Suc.IH [OF s1]
  from ih have nz: "users be1 \<noteq> 0"
    by (auto simp: unat_eq_0 [symmetric])
  obtain ret errp where
    c: "iommufd_backend_connect c qemu_open_old be1 l1 = (ret, errp, be', l')"
    using Suc.prems s1 unfolding exec_replicate_Suc [of _ _ "Suc a"]
    by (auto split: prod.splits)
  from connect_connected [OF nz c] ih show ?case
    by auto
qed

lemma disconnect_phase:
  assumes "owned be" and "users be \<noteq> 0"
  shows "exec c qemu_open_old (replicate b Disconnect) (be, l) = (be', l')
    \<Longrightarrow> owned be' \<and> unat (users be') = unat (users be) - b
      \<and> open_calls l' = open_calls l
      \<and> (if b < unat (users be)
          then fd be' = fd be \<and> close_calls l' = close_calls l
          else fd be' = - 1 \<and> close_calls l' = close_calls l @ [fd be])"
proof (induction b arbitrary: be' l')
  case 0
  with assms show ?case by (auto simp: unat_gt_0)
next
  case (Suc b)
  obtain be1 l1 where s1: "exec c qemu_open_old (replicate b Disconnect) (be, l) = (be1, l1)"
    by (cases "exec c qemu_open_old (replicate b Disconnect) (be, l)")
  note ih = Suc.IH [OF s1]
  have d: "iommufd_backend_disconnect be1 l1 = (be', l')"
    using Suc.prems s1 unfolding exec_replicate_Suc by simp
  from disconnect_step [OF d] ih show ?case
    by (auto split: if_splits)
qed

lemma disconnect_not_owned:
  assumes "\<not> owned be"
  shows "exec c qemu_open_old (replicate n Disconnect) (be, l) = (be', l')
    \<Longrightarrow> \<not> owned be' \<and> fd be' = fd be \<and> close_calls l' = close_calls l"
proof (induction n arbitrary: be' l')
  case 0
  with assms show ?case by simp
next
  case (Suc n)
  obtain be1 l1 where s1: "exec c qemu_open_old (replicate n Disconnect) (be, l) = (be1, l1)"
    by (cases "exec c qemu_open_old (replicate n Disconnect) (be, l)")
  have d: "iommufd_backend_disconnect be1 l1 = (be', l')"
    using Suc.prems s1 unfolding exec_replicate_Suc by simp
  from disconnect_step [OF d] Suc.IH [OF s1] show ?case
    by (auto split: if_splits)
qed

lemma take_calls:
  "take k (replicate N Connect @ replicate N Disconnect) =
     replicate (min k N) Connect @ replicate (min (k - N) N) Disconnect"
  by (simp add: min.commute)

subsection \<open>N connects, then N disconnects\<close>

text \<open>
  Claim C1. A self-owned handle starts unconnected (\<open>fd = -1\<close>, \<open>users = 0\<close>), \<open>N \<ge> 1\<close>
  connects are followed by \<open>N\<close> disconnects, and the open of the controller succeeds with
  descriptor \<open>f\<close>. The state after the first \<open>k\<close> of the \<open>2N\<close> calls is looked at, for
  every \<open>k\<close>:
  \<^item> from the first connect on, the log holds exactly one open call more than at the
    start, the one that returned \<open>f\<close>: the controller is opened once, by the first connect;
  \<^item> whenever \<open>users\<close> is not 0, \<open>fd\<close> is \<open>f\<close>, not the unset value, and \<open>f\<close> has not
    been closed: the descriptor is valid as long as the count is positive;
  \<^item> the log never holds more than one close call more than at the start, and after all
    \<open>2N\<close> calls it holds exactly one, of \<open>f\<close>, with \<open>users = 0\<close> and \<open>fd\<close> unset: the
    controller is closed once;
  \<^item> when \<open>N\<close> does not exceed \<open>UINT32_MAX\<close> (so that no connect is refused), nothing is
    closed before the last call and the count is positive between the first connect and
    the last disconnect: the close is done by the last disconnect.
\<close>

theorem connect_disconnect_lifecycle:
  assumes "0 < N" and "qemu_open_old l = (f, e)" and "0 \<le> f"
  shows "\<forall>k \<le> 2 * N.
    (case exec c qemu_open_old (take k (replicate N Connect @ replicate N Disconnect))
            (iommufd_backend_init, l) of
       (be, l') \<Rightarrow>
         open_calls l' = open_calls l @ (if 0 < k then [f] else [])
       \<and> (users be \<noteq> 0 \<longrightarrow> fd be = f \<and> fd be \<noteq> - 1 \<and> close_calls l' = close_calls l)
       \<and> (close_calls l' = close_calls l \<or> close_calls l' = close_calls l @ [f])
       \<and> (k = 2 * N \<longrightarrow> close_calls l' = close_calls l @ [f] \<and> users be = 0 \<and> fd be = - 1)
       \<and> (N \<le> 4294967295 \<and> k < 2 * N \<longrightarrow> close_calls l' = close_calls l)
       \<and> (N \<le> 4294967295 \<and> 0 < k \<and> k < 2 * N \<longrightarrow> users be \<noteq> 0))"
    (is "\<forall>k \<le> 2 * N. (case ?st k of (be, l') \<Rightarrow> ?P k be l')")
proof (intro allI impI)
  fix k
  assume k: "k \<le> 2 * N"
  obtain be l' where st: "?st k = (be, l')"
    by (cases "?st k")
  note phase1 = connect_phase [where qemu_open_old = qemu_open_old and l = l, OF assms(2,3)]
  consider (zero) "k = 0" | (conn) "0 < k" "k \<le> N" | (disc) "N < k"
    by linarith
  then have "?P k be l'"
  proof cases
    case zero
    with st assms(1) show ?thesis
      by (auto simp: iommufd_backend_init_def)
  next
    case conn
    then obtain a where a: "k = Suc a" by (cases k) auto
    from conn st
    have "exec c qemu_open_old (replicate k Connect) (iommufd_backend_init, l) = (be, l')"
      by (simp add: take_calls min_def)
    from phase1 [OF this [unfolded a]] a conn assms(1,3)
    have "fd be = f" "unat (users be) = min k 4294967295"
      "open_calls l' = open_calls l @ [f]" "close_calls l' = close_calls l"
      by auto
    moreover from this conn have "users be \<noteq> 0"
      by (auto simp: unat_eq_0 [symmetric])
    ultimately show ?thesis
      using conn assms(1,3) by auto
  next
    case disc
    obtain n where n: "N = Suc n" using assms(1) by (cases N) auto
    obtain beN lN where stN:
      "exec c qemu_open_old (replicate N Connect) (iommufd_backend_init, l) = (beN, lN)"
      by (cases "exec c qemu_open_old (replicate N Connect) (iommufd_backend_init, l)")
    from phase1 [OF stN [unfolded n]] n
    have pN: "fd beN = f" "owned beN" "unat (users beN) = min N 4294967295"
      "open_calls lN = open_calls l @ [f]" "close_calls lN = close_calls l"
      by auto
    from pN(3) assms(1) have nz: "users beN \<noteq> 0"
      by (auto simp: unat_eq_0 [symmetric])
    from disc k have "min k N = N" "min (k - N) N = k - N"
      by auto
    with st stN
    have "exec c qemu_open_old (replicate (k - N) Disconnect) (beN, lN) = (be, l')"
      by (simp add: take_calls exec_append)
    from disconnect_phase [OF pN(2) nz this] pN
    have q: "unat (users be) = min N 4294967295 - (k - N)"
      "open_calls l' = open_calls l @ [f]"
      "k - N < min N 4294967295 \<Longrightarrow> fd be = f \<and> close_calls l' = close_calls l"
      "\<not> k - N < min N 4294967295 \<Longrightarrow> fd be = - 1 \<and> close_calls l' = close_calls l @ [f]"
      by (auto split: if_splits)
    have u0: "users be \<noteq> 0 \<longleftrightarrow> k - N < min N 4294967295"
      using q(1) by (auto simp: unat_eq_0 [symmetric])
    show ?thesis
      using q u0 disc k assms(1,3) by (cases "k - N < min N 4294967295") auto
  qed
  then show "case ?st k of (be, l') \<Rightarrow> ?P k be l'"
    unfolding st prod.case .
qed

text \<open>Two connects and two disconnects on a system whose open returns descriptor 3.\<close>

theorem connect_disconnect_lifecycle_witness:
  "(case exec example_platform (\<lambda>_. (3, 0)) [Connect, Connect, Disconnect, Disconnect]
           (iommufd_backend_init, []) of
      (be, l') \<Rightarrow> open_calls l' = [3] \<and> close_calls l' = [3] \<and> users be = 0 \<and> fd be = - 1)
   \<and> (case exec example_platform (\<lambda>_. (3, 0)) [Connect, Connect, Disconnect]
           (iommufd_backend_init, []) of
      (be, l') \<Rightarrow> open_calls l' = [3] \<and> close_calls l' = [] \<and> users be = 1 \<and> fd be = 3)"
proof -
  have h: "0 < Suc (Suc 0)" "(\<lambda>_. (3, 0)) ([] :: event list) = (3 :: int, 0 :: int)"
    "(0::int) \<le> 3"
    by simp_all
  note t = connect_disconnect_lifecycle [where N = "Suc (Suc 0)"
      and qemu_open_old = "\<lambda>_. (3, 0)" and l = "[]" and f = 3 and e = 0
      and c = example_platform, OF h, rule_format]
  from t [of "Suc (Suc (Suc (Suc 0)))"] t [of "Suc (Suc (Suc 0))"] show ?thesis
    by (simp add: run_defs)
qed

subsection \<open>Disconnecting\<close>

text \<open>
  Claim C3. \<^verbatim>\<open>iommufd_backend_disconnect\<close> with \<open>users = 0\<close> leaves the handle as it is
  and closes nothing. Otherwise it decrements \<open>users\<close> by one, without wrapping around; if
  the new count is 0 and the handle is self-owned it closes \<open>fd\<close> and sets it to \<open>-1\<close>, and
  in every other case it closes nothing and leaves \<open>fd\<close> unchanged. On a handle that is not
  self-owned, any number \<open>n\<close> of disconnects closes nothing and leaves \<open>fd\<close> unchanged.
\<close>

theorem disconnect_behaviour:
  "(case iommufd_backend_disconnect be l of
      (be', l') \<Rightarrow>
        owned be' = owned be \<and> open_calls l' = open_calls l
      \<and> (users be = 0 \<longrightarrow> be' = be \<and> close_calls l' = close_calls l)
      \<and> (users be \<noteq> 0 \<longrightarrow>
           users be' = users be - 1 \<and> Suc (unat (users be')) = unat (users be)
         \<and> (if users be' = 0 \<and> owned be
             then close_calls l' = close_calls l @ [fd be] \<and> fd be' = - 1
             else close_calls l' = close_calls l \<and> fd be' = fd be)))
   \<and> (\<not> owned be \<longrightarrow>
        (\<forall>n. case exec c qemu_open_old (replicate n Disconnect) (be, l) of
           (be', l') \<Rightarrow> fd be' = fd be \<and> close_calls l' = close_calls l))"
proof (intro conjI impI allI)
  have "users be \<noteq> 0 \<Longrightarrow> Suc (unat (users be - 1)) = unat (users be)"
    by (simp add: unat_minus_one unat_gt_0)
  then show "case iommufd_backend_disconnect be l of
      (be', l') \<Rightarrow>
        owned be' = owned be \<and> open_calls l' = open_calls l
      \<and> (users be = 0 \<longrightarrow> be' = be \<and> close_calls l' = close_calls l)
      \<and> (users be \<noteq> 0 \<longrightarrow>
           users be' = users be - 1 \<and> Suc (unat (users be')) = unat (users be)
         \<and> (if users be' = 0 \<and> owned be
             then close_calls l' = close_calls l @ [fd be] \<and> fd be' = - 1
             else close_calls l' = close_calls l \<and> fd be' = fd be))"
    by (simp add: iommufd_backend_disconnect_def disconnect_out_def log_simps Let_def)
next
  fix n
  assume no: "\<not> owned be"
  obtain be' l' where s: "exec c qemu_open_old (replicate n Disconnect) (be, l) = (be', l')"
    by (cases "exec c qemu_open_old (replicate n Disconnect) (be, l)")
  from disconnect_not_owned [OF no s]
  show "case exec c qemu_open_old (replicate n Disconnect) (be, l) of
           (be', l') \<Rightarrow> fd be' = fd be \<and> close_calls l' = close_calls l"
    unfolding s by simp
qed

text \<open>
  A disconnect at count 0, the last and a middle disconnect of a self-owned handle, and
  three disconnects of a handle whose descriptor was supplied from outside.
\<close>

theorem disconnect_behaviour_witness:
  "iommufd_backend_disconnect \<lparr>fd = - 1, users = 0, owned = True\<rparr> [] =
     (\<lparr>fd = - 1, users = 0, owned = True\<rparr>,
      [Ev_trace ''iommufd_backend_disconnect'' [- 1, 0]])
   \<and> (case iommufd_backend_disconnect \<lparr>fd = 3, users = 1, owned = True\<rparr> [] of
      (be', l') \<Rightarrow> users be' = 0 \<and> fd be' = - 1 \<and> close_calls l' = [3])
   \<and> (case iommufd_backend_disconnect \<lparr>fd = 3, users = 2, owned = True\<rparr> [] of
      (be', l') \<Rightarrow> users be' = 1 \<and> fd be' = 3 \<and> close_calls l' = [])
   \<and> (case exec example_platform (\<lambda>_. (3, 0)) [Disconnect, Disconnect, Disconnect]
           (\<lparr>fd = 5, users = 2, owned = False\<rparr>, []) of
      (be', l') \<Rightarrow> fd be' = 5 \<and> close_calls l' = [])"
  using disconnect_behaviour [where be = "\<lparr>fd = - 1, users = 0, owned = True\<rparr>" and l = "[]"]
    disconnect_behaviour [where be = "\<lparr>fd = 3, users = 1, owned = True\<rparr>" and l = "[]"]
    disconnect_behaviour [where be = "\<lparr>fd = 3, users = 2, owned = True\<rparr>" and l = "[]"]
    disconnect_behaviour [where be = "\<lparr>fd = 5, users = 2, owned = False\<rparr>" and l = "[]"
      and c = example_platform and qemu_open_old = "\<lambda>_. (3, 0)", THEN conjunct2, rule_format,
      of "Suc (Suc (Suc 0))"]
  by (simp add: run_defs)

subsection \<open>Destruction\<close>

text \<open>
  Claim C9, as stated, asks that destruction closes the descriptor only when the handle is
  self-owned and \<open>fd\<close> is not the unset value. \<^verbatim>\<open>iommufd_backend_finalize\<close> does not look
  at \<open>fd\<close>: on a handle that was never connected it calls \<^verbatim>\<open>close(-1)\<close>.
\<close>

theorem finalize_closes_unset_descriptor:
  "iommufd_backend_finalize iommufd_backend_init [] = (iommufd_backend_init, [Ev_close (- 1)])"
  by (simp add: iommufd_backend_finalize_def iommufd_backend_init_def close_fd_def)

text \<open>
  Claim C9, amended. \<^verbatim>\<open>iommufd_backend_finalize\<close> calls \<^verbatim>\<open>close\<close> on \<open>fd\<close> exactly when
  the handle is self-owned, whatever \<open>fd\<close> is, and then sets \<open>fd\<close> to \<open>-1\<close>; \<open>users\<close> and
  \<open>owned\<close> are unchanged. On a handle that is not self-owned it does nothing: the
  descriptor is not closed and the handle is as before.
\<close>

theorem finalize_closes_when_owned:
  "(case iommufd_backend_finalize be l of
      (be', l') \<Rightarrow>
        close_calls l' = close_calls l @ (if owned be then [fd be] else [])
      \<and> fd be' = (if owned be then - 1 else fd be)
      \<and> users be' = users be \<and> owned be' = owned be
      \<and> open_calls l' = open_calls l)
   \<and> (\<not> owned be \<longrightarrow> iommufd_backend_finalize be l = (be, l))"
  by (simp add: iommufd_backend_finalize_def log_simps)

theorem finalize_closes_when_owned_witness:
  "iommufd_backend_finalize \<lparr>fd = 5, users = 0, owned = False\<rparr> [] =
     (\<lparr>fd = 5, users = 0, owned = False\<rparr>, [])
   \<and> (case iommufd_backend_finalize \<lparr>fd = 5, users = 1, owned = True\<rparr> [] of
      (be', l') \<Rightarrow> close_calls l' = [5] \<and> fd be' = - 1)"
  using finalize_closes_when_owned
      [where be = "\<lparr>fd = 5, users = 0, owned = False\<rparr>" and l = "[]"]
    finalize_closes_when_owned
      [where be = "\<lparr>fd = 5, users = 1, owned = True\<rparr>" and l = "[]"]
  by (simp add: case_prod_beta)

subsection \<open>Allocating and freeing address spaces\<close>

text \<open>
  Claim C6. \<^verbatim>\<open>iommufd_backend_get_ioas\<close> (through \<^verbatim>\<open>iommufd_backend_alloc_ioas\<close>)
  issues one \<^verbatim>\<open>IOMMU_IOAS_ALLOC\<close> request on the handle's descriptor, of the fixed shape
  with \<open>flags = 0\<close>, and returns what \<^verbatim>\<open>ioctl\<close> returned. When that is 0 the output
  parameter holds the id the kernel put into the structure and nothing is reported. When it
  is not 0 the failure is reported through \<^verbatim>\<open>error_report\<close> and the caller sees the
  non-zero return value; the output parameter is assigned then too, from the same field of
  the structure, so it holds no id: it is 0 when the kernel left the structure as it was
  passed. The output is meaningful only when the call returns 0.
\<close>

theorem alloc_ioas_output:
  "(case ioctl l (fd be) (alloc_ioas_request c) of
      (ret, errno, r') \<Rightarrow>
        (case iommufd_backend_get_ioas c ioctl be ioas_id l of
           (res, ioas_id', l') \<Rightarrow>
             ioas_alloc_flags (alloc_ioas_request c) = 0
           \<and> ioas_alloc_size (alloc_ioas_request c) = sizeof_iommu_ioas_alloc c
           \<and> ioctl_calls l' =
               ioctl_calls l @ [(fd be, Req_IOMMU_IOAS_ALLOC (alloc_ioas_request c))]
           \<and> res = ret
           \<and> ioas_id' = out_ioas_id r'
           \<and> (ret = 0 \<longrightarrow> error_reports l' = error_reports l)
           \<and> (ret \<noteq> 0 \<longrightarrow>
                error_reports l' = error_reports l @ [(''Failed to allocate ioas %m'', [errno])]
              \<and> (r' = alloc_ioas_request c \<longrightarrow> ioas_id' = 0))
           \<and> (case iommufd_backend_alloc_ioas c ioctl (fd be) ioas_id l of
                (res0, ioas0, l0) \<Rightarrow> res0 = res \<and> ioas0 = ioas_id')))"
  by (simp add: iommufd_backend_get_ioas_def iommufd_backend_alloc_ioas_def do_ioctl_def
      Let_def case_prod_beta log_simps alloc_ioas_request_def)

text \<open>
  A kernel that allocates id 9, and a handle that was never connected (descriptor \<open>-1\<close>)
  on a kernel that rejects the request with errno 9.
\<close>

theorem alloc_ioas_output_witness:
  "(case iommufd_backend_get_ioas example_platform (\<lambda>l f r. (0, 0, r\<lparr>out_ioas_id := 9\<rparr>))
           \<lparr>fd = 3, users = 1, owned = True\<rparr> 77 [] of
      (res, ioas_id', l') \<Rightarrow> res = 0 \<and> ioas_id' = 9 \<and> error_reports l' = [])
   \<and> (case iommufd_backend_get_ioas example_platform (\<lambda>l f r. (- 1, 9, r))
           iommufd_backend_init 77 [] of
      (res, ioas_id', l') \<Rightarrow>
        res = - 1 \<and> ioas_id' = 0
      \<and> error_reports l' = [(''Failed to allocate ioas %m'', [9])])"
  using alloc_ioas_output [where c = example_platform and be = "\<lparr>fd = 3, users = 1, owned = True\<rparr>"
      and ioctl = "\<lambda>l f r. (0, 0, r\<lparr>out_ioas_id := 9\<rparr>)" and l = "[]" and ioas_id = 77]
    alloc_ioas_output [where c = example_platform and be = iommufd_backend_init
      and ioctl = "\<lambda>l f r. (- 1, 9, r)" and l = "[]" and ioas_id = 77]
  by (simp add: case_prod_beta alloc_ioas_request_def)

text \<open>
  Claim C7. \<^verbatim>\<open>iommufd_backend_free_id\<close> and its wrapper \<^verbatim>\<open>iommufd_backend_put_ioas\<close>
  return nothing: the result of the model is the log alone. Whatever the kernel answers,
  they issue one \<^verbatim>\<open>IOMMU_DESTROY\<close> request and trace it; a failed request adds one
  \<^verbatim>\<open>error_report\<close> to the log (with the id and \<^verbatim>\<open>errno\<close> as it is after the trace
  point) and has no other effect.
\<close>

theorem free_id_best_effort:
  "(case ioctl l f (free_id_request c id') of
      (ret, errno, r') \<Rightarrow>
        (let l2 = l @ [Ev_ioctl f (Req_IOMMU_DESTROY (free_id_request c id')),
                       Ev_trace ''iommufd_backend_free_id'' [f, uint id', ret]]
         in iommufd_backend_free_id c ioctl f id' l =
              l2 @ (if ret \<noteq> 0
                    then [Ev_error_report ''Failed to free id: %u %m''
                            [uint id', diag_errno c l2 errno]]
                    else [])))
   \<and> (let l1 = l @ [Ev_trace ''iommufd_backend_put_ioas'' [fd be, uint ioas]] in
       case ioctl l1 (fd be) (free_id_request c ioas) of
         (ret, errno, r') \<Rightarrow>
           (let l2 = l1 @ [Ev_ioctl (fd be) (Req_IOMMU_DESTROY (free_id_request c ioas)),
                           Ev_trace ''iommufd_backend_free_id'' [fd be, uint ioas, ret]]
            in iommufd_backend_put_ioas c ioctl be ioas l =
                 l2 @ (if ret \<noteq> 0
                       then [Ev_error_report ''Failed to free id: %u %m''
                               [uint ioas, diag_errno c l2 errno]]
                       else [])))"
  by (simp add: iommufd_backend_put_ioas_def iommufd_backend_free_id_def do_ioctl_def
      Let_def case_prod_beta log_simps)

theorem free_id_best_effort_witness:
  "iommufd_backend_free_id example_platform (\<lambda>l f r. (- 1, 2, r)) 3 7 [] =
     [Ev_ioctl 3 (Req_IOMMU_DESTROY \<lparr>destroy_size = 8, destroy_id = 7\<rparr>),
      Ev_trace ''iommufd_backend_free_id'' [3, 7, - 1],
      Ev_error_report ''Failed to free id: %u %m'' [7, 2]]
   \<and> iommufd_backend_put_ioas example_platform (\<lambda>l f r. (0, 0, r))
        \<lparr>fd = 3, users = 1, owned = True\<rparr> 7 [] =
     [Ev_trace ''iommufd_backend_put_ioas'' [3, 7],
      Ev_ioctl 3 (Req_IOMMU_DESTROY \<lparr>destroy_size = 8, destroy_id = 7\<rparr>),
      Ev_trace ''iommufd_backend_free_id'' [3, 7, 0]]"
  using free_id_best_effort [where c = example_platform and ioctl = "\<lambda>l f r. (- 1, 2, r)"
      and f = 3 and id' = 7 and l = "[]"]
    free_id_best_effort [where c = example_platform and ioctl = "\<lambda>l f r. (0, 0, r)"
      and be = "\<lparr>fd = 3, users = 1, owned = True\<rparr>" and ioas = 7 and l = "[]"]
  by (simp add: free_id_request_def example_platform_def Let_def)

subsection \<open>DMA mappings: return values and request flags\<close>

lemma map_dma_ioctl_calls:
  "ioctl_calls (snd (iommufd_backend_map_dma c ioctl be ioas iova sz vaddr readonly l)) =
     ioctl_calls l @ [(fd be, Req_IOMMU_IOAS_MAP (map_dma_request c ioas iova sz vaddr readonly))]"
  by (simp add: iommufd_backend_map_dma_def do_ioctl_def Let_def case_prod_beta log_simps)

lemma copy_dma_ioctl_calls:
  "ioctl_calls (snd (iommufd_backend_copy_dma c ioctl be src_ioas dst_ioas iova sz readonly l)) =
     ioctl_calls l @
       [(fd be, Req_IOMMU_IOAS_COPY (copy_dma_request c src_ioas dst_ioas iova sz readonly))]"
  by (simp add: iommufd_backend_copy_dma_def do_ioctl_def Let_def case_prod_beta log_simps)

text \<open>
  Claim C4. The request that \<^verbatim>\<open>iommufd_backend_map_dma\<close> passes to the kernel, and
  likewise the one of \<^verbatim>\<open>iommufd_backend_copy_dma\<close>, has the readable flag and the
  fixed-IOVA flag set and carries the caller's IOVA as given (for the copy, as source and
  as destination address); its writable flag is set exactly when \<open>readonly\<close> is false.
  The values of the three flags come from the kernel's header; the only thing asked of
  them is that the writable flag is not made of bits of the other two.
\<close>

theorem dma_request_flags:
  assumes "\<not> flag_set (IOMMU_IOAS_MAP_WRITEABLE c)
             (IOMMU_IOAS_MAP_READABLE c OR IOMMU_IOAS_MAP_FIXED_IOVA c)"
  shows
    "(let r = map_dma_request c ioas iova sz vaddr readonly in
        ioctl_calls (snd (iommufd_backend_map_dma c ioctl_map be ioas iova sz vaddr readonly l)) =
          ioctl_calls l @ [(fd be, Req_IOMMU_IOAS_MAP r)]
      \<and> flag_set (IOMMU_IOAS_MAP_READABLE c) (map_flags r)
      \<and> flag_set (IOMMU_IOAS_MAP_FIXED_IOVA c) (map_flags r)
      \<and> map_iova r = iova
      \<and> (flag_set (IOMMU_IOAS_MAP_WRITEABLE c) (map_flags r) \<longleftrightarrow> \<not> readonly))
   \<and> (let r = copy_dma_request c src_ioas dst_ioas iova sz readonly in
        ioctl_calls (snd (iommufd_backend_copy_dma c ioctl_copy be src_ioas dst_ioas iova sz
                            readonly l)) =
          ioctl_calls l @ [(fd be, Req_IOMMU_IOAS_COPY r)]
      \<and> flag_set (IOMMU_IOAS_MAP_READABLE c) (copy_flags r)
      \<and> flag_set (IOMMU_IOAS_MAP_FIXED_IOVA c) (copy_flags r)
      \<and> copy_dst_iova r = iova \<and> copy_src_iova r = iova
      \<and> (flag_set (IOMMU_IOAS_MAP_WRITEABLE c) (copy_flags r) \<longleftrightarrow> \<not> readonly))"
proof -
  have "flag_set (IOMMU_IOAS_MAP_READABLE c)
          (map_flags (map_dma_request c ioas iova sz vaddr readonly))"
    "flag_set (IOMMU_IOAS_MAP_FIXED_IOVA c)
       (map_flags (map_dma_request c ioas iova sz vaddr readonly))"
    "map_iova (map_dma_request c ioas iova sz vaddr readonly) = iova"
    "flag_set (IOMMU_IOAS_MAP_WRITEABLE c)
       (map_flags (map_dma_request c ioas iova sz vaddr readonly)) \<longleftrightarrow> \<not> readonly"
    using assms by (simp_all add: map_dma_request_def Let_def flag_set_or)
  moreover have
    "flag_set (IOMMU_IOAS_MAP_READABLE c)
       (copy_flags (copy_dma_request c src_ioas dst_ioas iova sz readonly))"
    "flag_set (IOMMU_IOAS_MAP_FIXED_IOVA c)
       (copy_flags (copy_dma_request c src_ioas dst_ioas iova sz readonly))"
    "copy_dst_iova (copy_dma_request c src_ioas dst_ioas iova sz readonly) = iova"
    "copy_src_iova (copy_dma_request c src_ioas dst_ioas iova sz readonly) = iova"
    "flag_set (IOMMU_IOAS_MAP_WRITEABLE c)
       (copy_flags (copy_dma_request c src_ioas dst_ioas iova sz readonly)) \<longleftrightarrow> \<not> readonly"
    using assms by (simp_all add: copy_dma_request_def Let_def flag_set_or)
  ultimately show ?thesis
    by (simp only: Let_def map_dma_ioctl_calls copy_dma_ioctl_calls simp_thms)
qed

text \<open>
  With the flag values of Linux (fixed IOVA 1, writable 2, readable 4): a read-only map
  has flags 5, a writable copy has flags 7.
\<close>

theorem dma_request_flags_witness:
  "(let r = map_dma_request example_platform 1 4096 4096 65536 True in
        ioctl_calls (snd (iommufd_backend_map_dma example_platform (\<lambda>l f r. (0, 0, r))
                            \<lparr>fd = 3, users = 1, owned = True\<rparr> 1 4096 4096 65536 True [])) =
          [(3, Req_IOMMU_IOAS_MAP r)]
      \<and> map_flags r = 5 \<and> map_iova r = 4096)
   \<and> (let r = copy_dma_request example_platform 1 2 4096 4096 False in
        ioctl_calls (snd (iommufd_backend_copy_dma example_platform (\<lambda>l f r. (0, 0, r))
                            \<lparr>fd = 3, users = 1, owned = True\<rparr> 1 2 4096 4096 False [])) =
          [(3, Req_IOMMU_IOAS_COPY r)]
      \<and> copy_flags r = 7 \<and> copy_dst_iova r = 4096 \<and> copy_src_iova r = 4096)"
proof -
  have h: "\<not> flag_set (IOMMU_IOAS_MAP_WRITEABLE example_platform)
             (IOMMU_IOAS_MAP_READABLE example_platform OR IOMMU_IOAS_MAP_FIXED_IOVA example_platform)"
    by (simp add: example_platform_def flag_set_def)
  note t = dma_request_flags [OF h, where be = "\<lparr>fd = 3, users = 1, owned = True\<rparr>"
      and ioctl_map = "\<lambda>l f r. (0, 0, r)" and ioctl_copy = "\<lambda>l f r. (0, 0, r)" and l = "[]"
      and ioas = 1 and src_ioas = 1 and dst_ioas = 2 and iova = 4096 and sz = 4096
      and vaddr = 65536]
  from t [of True] t [of False]
  show ?thesis
    by (simp add: Let_def map_dma_request_def copy_dma_request_def example_platform_def)
qed

text \<open>
  The return value of the three functions where the trace point and \<^verbatim>\<open>error_report\<close>
  leave \<^verbatim>\<open>errno\<close> as it is: 0 when the \<^verbatim>\<open>ioctl\<close> returns 0, and otherwise the negation
  of the value \<^verbatim>\<open>errno\<close> has after the \<^verbatim>\<open>ioctl\<close>.
\<close>

lemma dma_return_values_errno_kept:
  assumes "\<forall>l e. diag_errno c l e = e"
  shows
  "(case ioctl_map l (fd be) (map_dma_request c ioas iova sz vaddr readonly) of
      (ret, errno, r') \<Rightarrow>
        fst (iommufd_backend_map_dma c ioctl_map be ioas iova sz vaddr readonly l) =
          (if ret = 0 then 0 else neg_int errno))
   \<and> (case ioctl_unmap l (fd be) (unmap_dma_request c ioas iova sz) of
      (ret, errno, r') \<Rightarrow>
        fst (iommufd_backend_unmap_dma c ioctl_unmap be ioas iova sz l) =
          (if ret = 0 then 0 else neg_int errno))
   \<and> (case ioctl_copy l (fd be) (copy_dma_request c src_ioas dst_ioas iova sz readonly) of
      (ret, errno, r') \<Rightarrow>
        fst (iommufd_backend_copy_dma c ioctl_copy be src_ioas dst_ioas iova sz readonly l) =
          (if ret = 0 then 0 else neg_int errno))"
  using assms
  by (simp add: iommufd_backend_map_dma_def iommufd_backend_unmap_dma_def
      iommufd_backend_copy_dma_def do_ioctl_def Let_def case_prod_beta)

lemma neg_int_errno: "errno \<noteq> INT_MIN \<Longrightarrow> neg_int errno = - errno"
  by (simp add: neg_int_def)

text \<open>
  Claim C5 asks that \<^verbatim>\<open>iommufd_backend_map_dma\<close>, \<^verbatim>\<open>iommufd_backend_unmap_dma\<close> and
  \<^verbatim>\<open>iommufd_backend_copy_dma\<close> return 0 when the kernel request succeeds and the negated
  error code of the request when it fails. The functions read \<^verbatim>\<open>errno\<close> for the return
  value only after the trace point and \<^verbatim>\<open>error_report\<close> have run, without having saved it.
  Here the kernel refuses each request with errno 22 (map), 2 (unmap) and 16 (copy), and
  the report cannot be written, which leaves \<^verbatim>\<open>errno\<close> at 28: all three functions return
  \<open>-28\<close>, although the message they report names the error of the request.
\<close>

theorem dma_return_values_errno_overwritten:
  "iommufd_backend_map_dma full_disk_platform (\<lambda>l f r. (- 1, 22, r))
          \<lparr>fd = 3, users = 1, owned = True\<rparr> 1 4096 4096 65536 False [] =
     (- 28,
      [Ev_ioctl 3 (Req_IOMMU_IOAS_MAP (map_dma_request full_disk_platform 1 4096 4096 65536 False)),
       Ev_trace ''iommufd_backend_map_dma'' [3, 1, 4096, 4096, 65536, 0, - 1],
       Ev_error_report ''IOMMU_IOAS_MAP failed: %s'' [22]])
   \<and> iommufd_backend_unmap_dma full_disk_platform (\<lambda>l f r. (- 1, 2, r))
          \<lparr>fd = 3, users = 1, owned = True\<rparr> 1 4096 4096 [] =
     (- 28,
      [Ev_ioctl 3 (Req_IOMMU_IOAS_UNMAP (unmap_dma_request full_disk_platform 1 4096 4096)),
       Ev_trace ''iommufd_backend_unmap_dma'' [3, 1, 4096, 4096, - 1],
       Ev_error_report ''IOMMU_IOAS_UNMAP failed: %s'' [2]])
   \<and> iommufd_backend_copy_dma full_disk_platform (\<lambda>l f r. (- 1, 16, r))
          \<lparr>fd = 3, users = 1, owned = True\<rparr> 1 2 4096 4096 False [] =
     (- 28,
      [Ev_ioctl 3 (Req_IOMMU_IOAS_COPY (copy_dma_request full_disk_platform 1 2 4096 4096 False)),
       Ev_trace ''iommufd_backend_copy_dma'' [3, 1, 2, 4096, 4096, 0, - 1],
       Ev_error_report ''IOMMU_IOAS_COPY failed: %s'' [16]])"
  by (simp add: iommufd_backend_map_dma_def iommufd_backend_unmap_dma_def
      iommufd_backend_copy_dma_def do_ioctl_def Let_def log_simps full_disk_platform_def
      example_platform_def neg_int_def INT_MIN_def)

subsection \<open>Output parameters\<close>

text \<open>
  Claim C10. \<^verbatim>\<open>iommufd_backend_alloc_hwpt\<close>, \<^verbatim>\<open>iommufd_backend_add_hwpt_event\<close> and
  \<^verbatim>\<open>iommufd_backend_alloc_pasid\<close> assign their output parameter only when the
  \<^verbatim>\<open>ioctl\<close> returns 0, with the value the kernel put into the structure. When it returns
  anything else the caller's variable keeps the value it had before the call, and the
  function returns the negation of \<^verbatim>\<open>errno\<close> as its two diagnostics leave it.
\<close>

theorem outputs_written_only_on_success:
  "(case ioctl_hwpt l iommufd
           (alloc_hwpt_request c flags dev_id hwpt_type parent data_type data data_len) of
      (ret, errno, r') \<Rightarrow>
        (case iommufd_backend_alloc_hwpt c ioctl_hwpt iommufd flags dev_id hwpt_type parent
                data_type data data_len out_hwpt l of
           (res, out_hwpt', l') \<Rightarrow>
             (ret \<noteq> 0 \<longrightarrow> out_hwpt' = out_hwpt
              \<and> res = neg_int (diag_errno c l' (diag_errno c (butlast l') errno)))
           \<and> (ret = 0 \<longrightarrow> out_hwpt' = out_hwpt_id r' \<and> res = 0)))
   \<and> (case ioctl_event l iommufd (add_hwpt_event_request c dev_id hwpt eventfd) of
      (ret, errno, r') \<Rightarrow>
        (case iommufd_backend_add_hwpt_event c ioctl_event iommufd dev_id hwpt eventfd
                out_fd l of
           (res, out_fd', l') \<Rightarrow>
             (ret \<noteq> 0 \<longrightarrow> out_fd' = out_fd
              \<and> res = neg_int (diag_errno c l' (diag_errno c (butlast l') errno)))
           \<and> (ret = 0 \<longrightarrow> out_fd' = event_out_fd r' \<and> res = 0)))
   \<and> (case ioctl_pasid l iommufd (alloc_pasid_request c pmin pmax identical pasid) of
      (ret, errno, r') \<Rightarrow>
        (case iommufd_backend_alloc_pasid c ioctl_pasid iommufd pmin pmax identical pasid l of
           (res, pasid', l') \<Rightarrow>
             (ret \<noteq> 0 \<longrightarrow> pasid' = pasid
              \<and> res = neg_int (diag_errno c l' (diag_errno c (butlast l') errno)))
           \<and> (ret = 0 \<longrightarrow> pasid' = pasid_pasid r' \<and> res = 0)))"
  by (simp add: iommufd_backend_alloc_hwpt_def iommufd_backend_add_hwpt_event_def
      iommufd_backend_alloc_pasid_def do_ioctl_def Let_def case_prod_beta log_simps
      butlast_append)

text \<open>
  Kernels that fail with errno 22 although they wrote 5 into the output field: the
  caller's 77 stays. A kernel that succeeds: the caller gets 5.
\<close>

theorem outputs_written_only_on_success_witness:
  "(case iommufd_backend_alloc_hwpt example_platform (\<lambda>l f r. (- 1, 22, r\<lparr>out_hwpt_id := 5\<rparr>))
           3 0 1 0 2 0 0 0 77 [] of
      (res, out_hwpt', l') \<Rightarrow> res = - 22 \<and> out_hwpt' = 77)
   \<and> (case iommufd_backend_add_hwpt_event example_platform
           (\<lambda>l f r. (- 1, 22, r\<lparr>event_out_fd := 5\<rparr>)) 3 1 2 8 77 [] of
      (res, out_fd', l') \<Rightarrow> res = - 22 \<and> out_fd' = 77)
   \<and> (case iommufd_backend_alloc_pasid example_platform
           (\<lambda>l f r. (- 1, 22, r\<lparr>pasid_pasid := 5\<rparr>)) 3 1 9 False 77 [] of
      (res, pasid', l') \<Rightarrow> res = - 22 \<and> pasid' = 77)
   \<and> (case iommufd_backend_alloc_hwpt example_platform (\<lambda>l f r. (0, 0, r\<lparr>out_hwpt_id := 5\<rparr>))
           3 0 1 0 2 0 0 0 77 [] of
      (res, out_hwpt', l') \<Rightarrow> res = 0 \<and> out_hwpt' = 5)"
  using outputs_written_only_on_success [where c = example_platform and l = "[]" and iommufd = 3
      and ioctl_hwpt = "\<lambda>l f r. (- 1, 22, r\<lparr>out_hwpt_id := 5\<rparr>)"
      and ioctl_event = "\<lambda>l f r. (- 1, 22, r\<lparr>event_out_fd := 5\<rparr>)"
      and ioctl_pasid = "\<lambda>l f r. (- 1, 22, r\<lparr>pasid_pasid := 5\<rparr>)"
      and flags = 0 and dev_id = 1 and hwpt_type = 0 and parent = 2 and data_type = 0
      and data = 0 and data_len = 0 and out_hwpt = 77 and hwpt = 2 and eventfd = 8
      and out_fd = 77 and pmin = 1 and pmax = 9 and identical = False and pasid = 77]
    outputs_written_only_on_success [where c = example_platform and l = "[]" and iommufd = 3
      and ioctl_hwpt = "\<lambda>l f r. (0, 0, r\<lparr>out_hwpt_id := 5\<rparr>)"
      and flags = 0 and dev_id = 1 and hwpt_type = 0 and parent = 2 and data_type = 0
      and data = 0 and data_len = 0 and out_hwpt = 77]
  by (simp add: case_prod_beta example_platform_def neg_int_def INT_MIN_def)

subsection \<open>PASID allocation\<close>

text \<open>
  Claim C8, as stated, ends with: for \<open>min = max = 5\<close> and \<open>identical\<close> the call returns
  PASID 5 or fails, never a value outside \<open>[5, 5]\<close>. \<^verbatim>\<open>iommufd_backend_alloc_pasid\<close>
  does not compare the kernel's answer with the range: with a kernel that answers 9 the
  call succeeds and gives 9.
\<close>

theorem alloc_pasid_out_of_range:
  "(case iommufd_backend_alloc_pasid example_platform (\<lambda>l f r. (0, 0, r\<lparr>pasid_pasid := 9\<rparr>))
           3 5 5 True 0 [] of
      (res, pasid', l') \<Rightarrow> res = 0 \<and> pasid' = 9)"
  by (simp add: iommufd_backend_alloc_pasid_def alloc_pasid_request_def do_ioctl_def Let_def)

text \<open>
  Claim C8, amended. The request of \<^verbatim>\<open>iommufd_backend_alloc_pasid\<close> has the range
  \<open>[pmin, pmax]\<close> as given and the caller's value of \<open>pasid\<close> in its \<open>pasid\<close> field; its
  identical-mapping flag is set exactly when \<open>identical\<close> is true (the flag of the kernel's
  header is not 0). That request is the one passed to the kernel. When the kernel succeeds
  the caller's variable holds the kernel's value, forwarded as it is: the result lies in
  \<open>[pmin, pmax]\<close> exactly when the kernel's answer does, and for \<open>pmin = pmax = 5\<close> it is 5
  exactly when the kernel answers 5. When the kernel fails the variable is unchanged and
  the negation of \<^verbatim>\<open>errno\<close>, as the two diagnostics leave it, is returned.
\<close>

theorem alloc_pasid_request_and_result:
  "(let r = alloc_pasid_request c pmin pmax identical pasid in
      pasid_range_min r = pmin \<and> pasid_range_max r = pmax \<and> pasid_pasid r = pasid
    \<and> (IOMMU_ALLOC_PASID_IDENTICAL c \<noteq> 0 \<longrightarrow>
         (flag_set (IOMMU_ALLOC_PASID_IDENTICAL c) (pasid_flags r) \<longleftrightarrow> identical))
    \<and> (case ioctl l iommufd r of
         (ret, errno, r') \<Rightarrow>
           (case iommufd_backend_alloc_pasid c ioctl iommufd pmin pmax identical pasid l of
              (res, pasid', l') \<Rightarrow>
                ioctl_calls l' = ioctl_calls l @ [(iommufd, Req_IOMMU_ALLOC_PASID r)]
              \<and> (ret = 0 \<longrightarrow> res = 0 \<and> pasid' = pasid_pasid r')
              \<and> (ret \<noteq> 0 \<longrightarrow>
                   res = neg_int (diag_errno c l' (diag_errno c (butlast l') errno))
                 \<and> pasid' = pasid)
              \<and> (ret = 0 \<longrightarrow>
                   (pmin \<le> pasid' \<and> pasid' \<le> pmax \<longleftrightarrow>
                    pmin \<le> pasid_pasid r' \<and> pasid_pasid r' \<le> pmax))
              \<and> (ret = 0 \<and> pmin = 5 \<and> pmax = 5 \<and> identical \<longrightarrow>
                   (pasid' = 5 \<longleftrightarrow> pasid_pasid r' = 5)))))"
  by (auto simp: iommufd_backend_alloc_pasid_def alloc_pasid_request_def do_ioctl_def
      Let_def case_prod_beta log_simps flag_set_def butlast_append)

text \<open>
  A kernel that gives the lower end of the requested range, asked for \<open>[5, 5]\<close>, and a
  kernel that refuses the request with errno 22.
\<close>

theorem alloc_pasid_request_and_result_witness:
  "(let r = alloc_pasid_request example_platform 5 5 True 0 in
      pasid_range_min r = 5 \<and> pasid_range_max r = 5 \<and> pasid_pasid r = 0 \<and> pasid_flags r = 1)
   \<and> (case iommufd_backend_alloc_pasid example_platform
              (\<lambda>l f r. (0, 0, r\<lparr>pasid_pasid := pasid_range_min r\<rparr>)) 3 5 5 True 0 [] of
         (res, pasid', l') \<Rightarrow> res = 0 \<and> pasid' = 5)
   \<and> (case iommufd_backend_alloc_pasid example_platform
              (\<lambda>l f r. (- 1, 22, r)) 3 5 5 True 7 [] of
         (res, pasid', l') \<Rightarrow> res = - 22 \<and> pasid' = 7)"
  using alloc_pasid_request_and_result [where c = example_platform and pmin = 5 and pmax = 5
      and identical = True and pasid = 0 and iommufd = 3 and l = "[]"
      and ioctl = "\<lambda>l f r. (0, 0, r\<lparr>pasid_pasid := pasid_range_min r\<rparr>)"]
    alloc_pasid_request_and_result [where c = example_platform and pmin = 5 and pmax = 5
      and identical = True and pasid = 7 and iommufd = 3 and l = "[]"
      and ioctl = "\<lambda>l f r. (- 1, 22, r)"]
  by (simp add: Let_def case_prod_beta alloc_pasid_request_def example_platform_def
      neg_int_def INT_MIN_def)

end
